theory Spec2Isabelle
  imports Main
begin

section \<open>Configuration: package option (src/option/option.go)\<close>

text \<open>
  \<^verbatim>\<open>OTLPOption\<close> and \<^verbatim>\<open>LogOption\<close> are Go structs. A Go pointer that may be
  \<^verbatim>\<open>nil\<close> is an \<open>option\<close>: \<^verbatim>\<open>Enabled *bool\<close> is the tri-state
  \<open>None\<close> (unset), \<open>Some True\<close>, \<open>Some False\<close>, and \<^verbatim>\<open>OTLP *OTLPOption\<close> is
  \<open>None\<close> when the nested structure is absent. \<^verbatim>\<open>time.Duration\<close> is a count of
  nanoseconds; the resolver only compares it with zero and stores a constant, so it is an
  \<open>int\<close>. A method with a pointer receiver that mutates the struct returns the updated
  record.
\<close>

record OTLPOption =
  Enabled :: "bool option"
  Endpoint :: string
  Protocol :: string
  Timeout :: int
  Headers :: "string \<rightharpoonup> string"
  Insecure :: bool

record LogOption =
  Engine :: string
  Level :: string
  Format :: string
  OutputPaths :: "string list"
  OTLPEndpoint :: string
  OTLP :: "OTLPOption option"
  Development :: bool
  DisableCaller :: bool
  DisableStacktrace :: bool

text \<open>\<^verbatim>\<open>time.Second\<close>, in nanoseconds.\<close>

definition Second :: int where
  "Second = 1000000000"

text \<open>The zero value \<^verbatim>\<open>&OTLPOption{}\<close>.\<close>

definition zero_OTLPOption :: OTLPOption where
  "zero_OTLPOption =
     \<lparr>Enabled = None, Endpoint = [], Protocol = [], Timeout = 0,
      Headers = Map.empty, Insecure = False\<rparr>"

text \<open>
  Lines 139 to 147 of option.go: the defaults for an enabled export setting.
\<close>

definition applyDefaults :: "OTLPOption \<Rightarrow> OTLPOption" where
  "applyDefaults o1 =
     (if Enabled o1 = Some True then
        (let o2 = (if Protocol o1 = [] then o1\<lparr>Protocol := ''grpc''\<rparr> else o1)
         in (if Timeout o2 = 0 then o2\<lparr>Timeout := 10 * Second\<rparr> else o2))
      else o1)"

text \<open>
  \<^verbatim>\<open>(*LogOption).resolveOTLPConfig\<close>, lines 106 to 148. The early \<^verbatim>\<open>return\<close> of
  line 119 leaves the structure as it is after the nil check, without the defaults.
\<close>

definition resolveOTLPConfig :: "LogOption \<Rightarrow> LogOption" where
  "resolveOTLPConfig opt =
     (let o0 = (case OTLP opt of None \<Rightarrow> zero_OTLPOption | Some o1 \<Rightarrow> o1) in
      if OTLPEndpoint opt \<noteq> [] then
        (if Enabled o0 = Some False then opt\<lparr>OTLP := Some o0\<rparr>
         else
           (let o1 = (if Enabled o0 = None then o0\<lparr>Enabled := Some True\<rparr> else o0);
                o2 = o1\<lparr>Endpoint := OTLPEndpoint opt\<rparr>
            in opt\<lparr>OTLP := Some (applyDefaults o2)\<rparr>))
      else
        (let o1 = (if Enabled o0 = None \<and> Endpoint o0 \<noteq> []
                   then o0\<lparr>Enabled := Some True\<rparr> else o0)
         in opt\<lparr>OTLP := Some (applyDefaults o1)\<rparr>))"

text \<open>\<^verbatim>\<open>(*LogOption).IsOTLPEnabled\<close>, lines 151 to 153.\<close>

definition IsOTLPEnabled :: "LogOption \<Rightarrow> bool" where
  "IsOTLPEnabled opt =
     (case OTLP opt of
        None \<Rightarrow> False
      | Some o1 \<Rightarrow> Enabled o1 = Some True \<and> Endpoint o1 \<noteq> [])"

text \<open>\<^verbatim>\<open>(*OTLPOption).IsEnabled\<close>, lines 156 to 158, on a possibly nil receiver.\<close>

definition IsEnabled :: "OTLPOption option \<Rightarrow> bool" where
  "IsEnabled p =
     (case p of
        None \<Rightarrow> False
      | Some o1 \<Rightarrow> Enabled o1 = Some True \<and> Endpoint o1 \<noteq> [])"

section \<open>Configuration: package config (src/unnamed/part_000)\<close>

record OTLPConfig =
  cEnabled :: "bool option"
  cEndpoint :: string
  cProtocol :: string
  cTimeout :: int
  cHeaders :: "string \<rightharpoonup> string"

record Config =
  cfgEngine :: string
  cfgLevel :: string
  cfgFormat :: string
  cfgOutputPaths :: "string list"
  cfgOTLPEndpoint :: string
  cfgOTLP :: "OTLPConfig option"
  cfgDevelopment :: bool
  cfgDisableCaller :: bool
  cfgDisableStacktrace :: bool

definition zero_OTLPConfig :: OTLPConfig where
  "zero_OTLPConfig =
     \<lparr>cEnabled = None, cEndpoint = [], cProtocol = [], cTimeout = 0, cHeaders = Map.empty\<rparr>"

text \<open>Lines 118 to 126 of part_000.\<close>

definition cfg_applyDefaults :: "OTLPConfig \<Rightarrow> OTLPConfig" where
  "cfg_applyDefaults o1 =
     (if cEnabled o1 = Some True then
        (let o2 = (if cProtocol o1 = [] then o1\<lparr>cProtocol := ''grpc''\<rparr> else o1)
         in (if cTimeout o2 = 0 then o2\<lparr>cTimeout := 10 * Second\<rparr> else o2))
      else o1)"

text \<open>
  \<^verbatim>\<open>(*Config).resolveOTLPConfig\<close>, lines 83 to 127. It differs from the resolver of
  package option at lines 105 to 108: the flattened endpoint is stored only when the nested
  endpoint is empty.
\<close>

definition cfg_resolveOTLPConfig :: "Config \<Rightarrow> Config" where
  "cfg_resolveOTLPConfig c =
     (let o0 = (case cfgOTLP c of None \<Rightarrow> zero_OTLPConfig | Some o1 \<Rightarrow> o1) in
      if cfgOTLPEndpoint c \<noteq> [] then
        (if cEnabled o0 = Some False then c\<lparr>cfgOTLP := Some o0\<rparr>
         else
           (let o1 = (if cEnabled o0 = None then o0\<lparr>cEnabled := Some True\<rparr> else o0);
                o2 = (if cEndpoint o1 = [] then o1\<lparr>cEndpoint := cfgOTLPEndpoint c\<rparr> else o1)
            in c\<lparr>cfgOTLP := Some (cfg_applyDefaults o2)\<rparr>))
      else
        (let o1 = (if cEnabled o0 = None \<and> cEndpoint o0 \<noteq> []
                   then o0\<lparr>cEnabled := Some True\<rparr> else o0)
         in c\<lparr>cfgOTLP := Some (cfg_applyDefaults o1)\<rparr>))"

text \<open>\<^verbatim>\<open>(*Config).IsOTLPEnabled\<close>, lines 130 to 132.\<close>

definition cfg_IsOTLPEnabled :: "Config \<Rightarrow> bool" where
  "cfg_IsOTLPEnabled c =
     (case cfgOTLP c of
        None \<Rightarrow> False
      | Some o1 \<Rightarrow> cEnabled o1 = Some True \<and> cEndpoint o1 \<noteq> [])"

section \<open>Levels and validation\<close>

text \<open>
  Modelled from the spec: the type \<^verbatim>\<open>core.Level\<close> (package core is not among the
  sources; only its uses are). The spec gives five severities in the total order
  debug, info, warn, error, fatal.
\<close>

datatype Level = DebugLevel | InfoLevel | WarnLevel | ErrorLevel | FatalLevel

fun level_rank :: "Level \<Rightarrow> nat" where
  "level_rank DebugLevel = 0"
| "level_rank InfoLevel = 1"
| "level_rank WarnLevel = 2"
| "level_rank ErrorLevel = 3"
| "level_rank FatalLevel = 4"

datatype error =
    InvalidLevel string
  | OTLPNotEnabled
  | GRPCClientNotInitialized
  | GRPCConnectionFailed string
  | OTLPClientFailed error
  | OTLPProviderFailed error
  | OpenFileFailed string
  | ZapBuildFailed
  | InvalidConfiguration error
  | UnsupportedEngine string

text \<open>ASCII lower-casing of one byte and of a string (\<^verbatim>\<open>strings.ToLower\<close> on ASCII).\<close>

definition toLower_char :: "char \<Rightarrow> char" where
  "toLower_char c =
     (case map_of (zip ''ABCDEFGHIJKLMNOPQRSTUVWXYZ'' ''abcdefghijklmnopqrstuvwxyz'') c of
        None \<Rightarrow> c
      | Some d \<Rightarrow> d)"

definition ToLower :: "string \<Rightarrow> string" where
  "ToLower s = map toLower_char s"

text \<open>
  Modelled from the spec: \<^verbatim>\<open>core.ParseLevel\<close> (package core is not among the sources).
  The spec: parse fails with an invalid-level error when the string matches none of the
  five recognized names, case-insensitively.
\<close>

definition ParseLevel :: "string \<Rightarrow> error + Level" where
  "ParseLevel s =
     (let t = ToLower s in
      if t = ''debug'' then Inr DebugLevel
      else if t = ''info'' then Inr InfoLevel
      else if t = ''warn'' then Inr WarnLevel
      else if t = ''error'' then Inr ErrorLevel
      else if t = ''fatal'' then Inr FatalLevel
      else Inl (InvalidLevel s))"

text \<open>
  \<^verbatim>\<open>(*LogOption).Validate\<close>, option.go lines 87 to 102. The Go method mutates its
  receiver and returns an error or nil: the model returns the error, if any, with the
  receiver as the call leaves it. On a level that does not parse, the receiver is untouched.
\<close>

definition Validate :: "LogOption \<Rightarrow> error option \<times> LogOption" where
  "Validate opt =
     (case ParseLevel (Level opt) of
        Inl e \<Rightarrow> (Some e, opt)
      | Inr _ \<Rightarrow>
          (let opt1 = resolveOTLPConfig opt;
               opt2 = (if Engine opt1 \<noteq> ''zap'' \<and> Engine opt1 \<noteq> ''slog''
                       then opt1\<lparr>Engine := ''slog''\<rparr> else opt1)
           in (None, opt2)))"

section \<open>Export client: the URL of the HTTP binding (src/otlp/provider.go)\<close>

text \<open>\<^verbatim>\<open>strings.HasPrefix\<close>.\<close>

definition HasPrefix :: "string \<Rightarrow> string \<Rightarrow> bool" where
  "HasPrefix s p = (take (length p) s = p)"

text \<open>
  The local \<^verbatim>\<open>url\<close> of \<^verbatim>\<open>(*OTLPClient).exportHTTP\<close>, lines 289 to 298, as a function
  of the client's endpoint: the request of line 302 is a POST to it.
\<close>

definition exportHTTP_url :: "string \<Rightarrow> string" where
  "exportHTTP_url endpoint =
     (if HasPrefix endpoint ''http'' then endpoint
      else ''http://'' @ endpoint @ ''/v1/logs'')"

section \<open>Field names and values\<close>

text \<open>
  The type \<^verbatim>\<open>fields.FieldMapper\<close> is not among the sources. The engines use it only
  through the two tables that \<^verbatim>\<open>MapCoreFields()\<close> and \<^verbatim>\<open>MapTracingFields()\<close>
  return, so a mapper is the pair of these tables and every function takes it as an
  argument.
\<close>

record FieldMapper =
  MapCoreFields :: "string \<rightharpoonup> string"
  MapTracingFields :: "string \<rightharpoonup> string"

text \<open>
  \<^verbatim>\<open>getStandardFieldName\<close>: zap.go lines 270 to 282, part_001 lines 380 to 392 and 506
  to 518 (three copies of one body).
\<close>

definition getStandardFieldName :: "FieldMapper \<Rightarrow> string \<Rightarrow> string" where
  "getStandardFieldName m fieldName =
     (case MapCoreFields m fieldName of
        Some mapped \<Rightarrow> mapped
      | None \<Rightarrow>
          (case MapTracingFields m fieldName of
             Some mapped \<Rightarrow> mapped
           | None \<Rightarrow> fieldName))"

text \<open>
  Modelled from the spec: the constants \<^verbatim>\<open>fields.CallerField\<close> and
  \<^verbatim>\<open>fields.StacktraceField\<close> (package fields is not among the sources); the spec names
  the output keys \<open>caller\<close> and \<open>stacktrace\<close>.
\<close>

definition CallerField :: string where
  "CallerField = ''caller''"

definition StacktraceField :: string where
  "StacktraceField = ''stacktrace''"

text \<open>
  A Go \<^verbatim>\<open>interface{}\<close> argument: nil, a string, an int or a bool.
\<close>

datatype val = VNil | VStr string | VInt int | VBool bool

definition digit_char :: "nat \<Rightarrow> char" where
  "digit_char d = ''0123456789'' ! (d mod 10)"

function nat_digits :: "nat \<Rightarrow> string" where
  "nat_digits n = (if n < 10 then [digit_char n] else nat_digits (n div 10) @ [digit_char n])"
  by pat_completeness auto
termination
  by (relation "measure id") auto

definition itoa :: "int \<Rightarrow> string" where
  "itoa i = (if i < 0 then CHR ''-'' # nat_digits (nat (- i)) else nat_digits (nat i))"

text \<open>
  \<^verbatim>\<open>anyToString\<close>: zap.go lines 284 to 293 and part_001 lines 346 to 354. On an int and
  on a bool, \<^verbatim>\<open>fmt.Sprintf("%v", v)\<close> and \<^verbatim>\<open>slog.AnyValue(v).String()\<close> both give the
  decimal digits and \<open>true\<close> or \<open>false\<close>.
\<close>

fun anyToString :: "val \<Rightarrow> string" where
  "anyToString VNil = ''<nil>''"
| "anyToString (VStr s) = s"
| "anyToString (VInt i) = itoa i"
| "anyToString (VBool b) = (if b then ''true'' else ''false'')"

text \<open>\<^verbatim>\<open>strings.Join\<close>.\<close>

fun Join :: "string list \<Rightarrow> string \<Rightarrow> string" where
  "Join [] sep = []"
| "Join [x] sep = x"
| "Join (x # y # ys) sep = x @ sep @ Join (y # ys) sep"

text \<open>\<^verbatim>\<open>formatArgs\<close>, part_001 lines 326 to 339.\<close>

definition formatArgs :: "val list \<Rightarrow> string" where
  "formatArgs args =
     (if length args = 0 then []
      else if length args = 1 then anyToString (hd args)
      else Join (map anyToString args) '' '')"

section \<open>Export client and provider (src/otlp/provider.go)\<close>

text \<open>
  What the process cannot decide by itself is an argument: whether dialling a gRPC endpoint
  fails, whether opening a log file fails, whether building the zap logger for a list of
  sinks fails.
\<close>

record Env =
  grpcDialFails :: "string \<Rightarrow> bool"
  openFileFails :: "string \<Rightarrow> bool"
  zapBuildFails :: "string list \<Rightarrow> bool"

text \<open>
  \<^verbatim>\<open>OTLPClient\<close>, lines 31 to 44; \<open>cl_grpc\<close> says whether \<^verbatim>\<open>grpcClient\<close> is set.
\<close>

record OTLPClient =
  cl_endpoint :: string
  cl_protocol :: string
  cl_timeout :: int
  cl_headers :: "string \<rightharpoonup> string"
  cl_insecure :: bool
  cl_grpc :: bool

text \<open>\<^verbatim>\<open>LoggerProvider\<close>, lines 25 to 28; the resource is a constant.\<close>

record LoggerProvider =
  client :: OTLPClient

text \<open>\<^verbatim>\<open>NewOTLPClient\<close>, lines 94 to 119.\<close>

definition NewOTLPClient :: "Env \<Rightarrow> OTLPOption \<Rightarrow> error + OTLPClient" where
  "NewOTLPClient env opt =
     (let c = \<lparr>cl_endpoint = Endpoint opt, cl_protocol = Protocol opt,
                cl_timeout = Timeout opt, cl_headers = Headers opt,
                cl_insecure = Insecure opt, cl_grpc = False\<rparr>
      in if Protocol opt = ''grpc'' then
           (if grpcDialFails env (Endpoint opt)
            then Inl (GRPCConnectionFailed (Endpoint opt))
            else Inr (c\<lparr>cl_grpc := True\<rparr>))
         else Inr c)"

text \<open>\<^verbatim>\<open>NewLoggerProvider\<close>, lines 47 to 91.\<close>

definition NewLoggerProvider :: "Env \<Rightarrow> OTLPOption option \<Rightarrow> error + LoggerProvider" where
  "NewLoggerProvider env p =
     (case p of
        None \<Rightarrow> Inl OTLPNotEnabled
      | Some opt \<Rightarrow>
          if \<not> IsEnabled p then Inl OTLPNotEnabled
          else (case NewOTLPClient env opt of
                  Inl e \<Rightarrow> Inl (OTLPClientFailed e)
                | Inr c \<Rightarrow> Inr \<lparr>client = c\<rparr>))"

text \<open>
  \<^verbatim>\<open>(*OTLPClient).Export\<close>, lines 257 to 262, with the first check of
  \<^verbatim>\<open>exportGRPC\<close> (lines 266 to 268): the transport that carries the request and where
  it goes.
\<close>

datatype transport = GRPCExport string | HTTPPost string

definition Export :: "OTLPClient \<Rightarrow> error + transport" where
  "Export c =
     (if cl_protocol c = ''grpc'' then
        (if \<not> cl_grpc c then Inl GRPCClientNotInitialized
         else Inr (GRPCExport (cl_endpoint c)))
      else Inr (HTTPPost (exportHTTP_url (cl_endpoint c))))"

section \<open>What a log call does\<close>

text \<open>
  A log call returns the effects it has, in order: a record handed to the backend for the
  local sinks (level name, message, attributes), a call of \<^verbatim>\<open>(*LoggerProvider).SendLogRecord\<close> (level,
  message, attribute map), and the end of the process by \<^verbatim>\<open>os.Exit\<close>. An error that
  \<^verbatim>\<open>SendLogRecord\<close> returns is only printed.
\<close>

datatype event =
    LocalWrite string string "(string \<times> val) list"
  | SendLogRecord Level string "string \<rightharpoonup> val"
  | Exit int

fun is_SendLogRecord :: "event \<Rightarrow> bool" where
  "is_SendLogRecord (SendLogRecord l m a) = True"
| "is_SendLogRecord e = False"

fun is_Exit :: "event \<Rightarrow> bool" where
  "is_Exit (Exit n) = True"
| "is_Exit e = False"

text \<open>
  One statement after another: what follows \<^verbatim>\<open>os.Exit\<close> does not run.
\<close>

definition then_do :: "event list \<Rightarrow> event list \<Rightarrow> event list" where
  "then_do first rest = (if list_ex is_Exit first then first else first @ rest)"

text \<open>
  What the calls read from the Go runtime and the formatting library: whether a frame of
  the package-level functions of logger.go is on the stack, the caller found at a skip
  count (rendered \<open>file:line\<close>, empty when there is none), the rendered stack at a skip
  count, \<^verbatim>\<open>fmt.Sprintf\<close> and \<^verbatim>\<open>fmt.Sprint\<close>.
\<close>

record Runtime =
  hasGlobalCall :: bool
  callerAt :: "int \<Rightarrow> string"
  stackAt :: "int \<Rightarrow> string"
  Sprintf :: "string \<Rightarrow> val list \<Rightarrow> string"
  Sprint :: "val list \<Rightarrow> string"

text \<open>
  The loop of \<^verbatim>\<open>sendToOTLP\<close> over the arguments, zap.go lines 402 to 415 and part_001
  lines 629 to 642: two arguments at a time into a map; a last argument without a partner
  ends the loop (\<^verbatim>\<open>break\<close>).
\<close>

fun otlp_attributes :: "FieldMapper \<Rightarrow> val list \<Rightarrow> (string \<rightharpoonup> val) \<Rightarrow> (string \<rightharpoonup> val)" where
  "otlp_attributes m [] attributes = attributes"
| "otlp_attributes m [k] attributes = attributes"
| "otlp_attributes m (k # v # rest) attributes =
     otlp_attributes m rest (attributes(getStandardFieldName m (anyToString k) \<mapsto> v))"

text \<open>
  \<^verbatim>\<open>sendToOTLP\<close>, zap.go lines 396 to 422 and part_001 lines 623 to 649, on the provider and
  the mapper of the receiver.
\<close>

definition sendToOTLP ::
  "LoggerProvider option \<Rightarrow> FieldMapper \<Rightarrow> Level \<Rightarrow> string \<Rightarrow> val list \<Rightarrow> event list" where
  "sendToOTLP otlpProvider m level msg keysAndValues =
     (case otlpProvider of
        None \<Rightarrow> []
      | Some p \<Rightarrow> [SendLogRecord level msg (otlp_attributes m keysAndValues Map.empty)])"

section \<open>The slog engine (src/unnamed/part_001)\<close>

text \<open>The four levels of \<^verbatim>\<open>log/slog\<close> with their numeric values and names.\<close>

datatype SlogLevel = LevelDebug | LevelInfo | LevelWarn | LevelError

fun slog_value :: "SlogLevel \<Rightarrow> int" where
  "slog_value LevelDebug = - 4"
| "slog_value LevelInfo = 0"
| "slog_value LevelWarn = 4"
| "slog_value LevelError = 8"

fun slog_name :: "SlogLevel \<Rightarrow> string" where
  "slog_name LevelDebug = ''DEBUG''"
| "slog_name LevelInfo = ''INFO''"
| "slog_name LevelWarn = ''WARN''"
| "slog_name LevelError = ''ERROR''"

text \<open>\<^verbatim>\<open>mapToSlogLevel\<close>, lines 394 to 409.\<close>

fun mapToSlogLevel :: "Level \<Rightarrow> SlogLevel" where
  "mapToSlogLevel DebugLevel = LevelDebug"
| "mapToSlogLevel InfoLevel = LevelInfo"
| "mapToSlogLevel WarnLevel = LevelWarn"
| "mapToSlogLevel ErrorLevel = LevelError"
| "mapToSlogLevel FatalLevel = LevelError"

text \<open>
  \<^verbatim>\<open>SlogLogger\<close>, lines 19 to 26. The field \<^verbatim>\<open>logger *slog.Logger\<close> is the
  \<^verbatim>\<open>standardizedHandler\<close> it was built on: the minimum level of the handler options and
  the handler's mapper.
\<close>

record SlogLogger =
  sl_handlerLevel :: SlogLevel
  sl_handlerMapper :: FieldMapper
  sl_level :: Level
  sl_mapper :: FieldMapper
  sl_callerSkip :: int
  sl_disableStacktrace :: bool
  sl_otlpProvider :: "LoggerProvider option"

text \<open>
  \<^verbatim>\<open>(*standardizedHandler).Handle\<close>, lines 451 to 478: the engine attribute, then every
  attribute of the record under its standard name.
\<close>

definition Handle :: "FieldMapper \<Rightarrow> SlogLevel \<Rightarrow> string \<Rightarrow> (string \<times> val) list \<Rightarrow> event" where
  "Handle m lv msg attrs =
     LocalWrite (slog_name lv) msg
       ((''engine'', VStr ''slog'') # map (\<lambda>(k, v). (getStandardFieldName m k, v)) attrs)"

text \<open>
  \<^verbatim>\<open>l.logger.Debug\<close>, \<^verbatim>\<open>Info\<close>, \<^verbatim>\<open>Warn\<close>, \<^verbatim>\<open>Error\<close> and their \<^verbatim>\<open>Context\<close>
  forms: the record reaches the handler when \<^verbatim>\<open>Enabled\<close> (lines 447 to 449) says so, that
  is when its level is at least the level of the handler options.
\<close>

definition slog_log :: "SlogLogger \<Rightarrow> SlogLevel \<Rightarrow> string \<Rightarrow> (string \<times> val) list \<Rightarrow> event list" where
  "slog_log l lv msg attrs =
     (if slog_value (sl_handlerLevel l) \<le> slog_value lv
      then [Handle (sl_handlerMapper l) lv msg attrs] else [])"

text \<open>\<^verbatim>\<open>(*SlogLogger).getCaller\<close>, lines 521 to 572.\<close>

definition getCaller :: "SlogLogger \<Rightarrow> Runtime \<Rightarrow> string" where
  "getCaller l rt =
     (let skip = (if hasGlobalCall rt then 4 + sl_callerSkip l else 3 + sl_callerSkip l)
      in callerAt rt skip)"

text \<open>\<^verbatim>\<open>(*SlogLogger).getStacktrace\<close>, lines 575 to 620.\<close>

definition getStacktrace :: "SlogLogger \<Rightarrow> Runtime \<Rightarrow> string" where
  "getStacktrace l rt =
     (if sl_disableStacktrace l then [] else stackAt rt (3 + sl_callerSkip l))"

text \<open>The attributes that the methods append for the caller and for the stack trace.\<close>

definition callerAttrs :: "SlogLogger \<Rightarrow> Runtime \<Rightarrow> (string \<times> val) list" where
  "callerAttrs l rt =
     (let caller = getCaller l rt
      in if caller \<noteq> [] then [(CallerField, VStr caller)] else [])"

definition stacktraceAttrs :: "SlogLogger \<Rightarrow> Runtime \<Rightarrow> (string \<times> val) list" where
  "stacktraceAttrs l rt =
     (let stacktrace = getStacktrace l rt
      in if stacktrace \<noteq> [] then [(StacktraceField, VStr stacktrace)] else [])"

text \<open>
  \<^verbatim>\<open>(*SlogLogger).convertToSlogAttrs\<close>, lines 356 to 378. A last key without a value
  becomes an attribute with a nil value, under its own name.
\<close>

fun convertToSlogAttrs :: "FieldMapper \<Rightarrow> val list \<Rightarrow> (string \<times> val) list" where
  "convertToSlogAttrs m [] = []"
| "convertToSlogAttrs m [k] = [(anyToString k, VNil)]"
| "convertToSlogAttrs m (k # v # rest) =
     (let key = anyToString k;
          mappedKey = getStandardFieldName m key;
          key1 = (if mappedKey \<noteq> [] then mappedKey else key)
      in (key1, v) # convertToSlogAttrs m rest)"

text \<open>The variadic methods, lines 94 to 151.\<close>

definition slog_Debug :: "SlogLogger \<Rightarrow> Runtime \<Rightarrow> val list \<Rightarrow> event list" where
  "slog_Debug l rt args = slog_log l LevelDebug (formatArgs args) (callerAttrs l rt)"

definition slog_Info :: "SlogLogger \<Rightarrow> Runtime \<Rightarrow> val list \<Rightarrow> event list" where
  "slog_Info l rt args = slog_log l LevelInfo (formatArgs args) (callerAttrs l rt)"

definition slog_Warn :: "SlogLogger \<Rightarrow> Runtime \<Rightarrow> val list \<Rightarrow> event list" where
  "slog_Warn l rt args = slog_log l LevelWarn (formatArgs args) (callerAttrs l rt)"

definition slog_Error :: "SlogLogger \<Rightarrow> Runtime \<Rightarrow> val list \<Rightarrow> event list" where
  "slog_Error l rt args =
     slog_log l LevelError (formatArgs args) (callerAttrs l rt @ stacktraceAttrs l rt)"

definition slog_Fatal :: "SlogLogger \<Rightarrow> Runtime \<Rightarrow> val list \<Rightarrow> event list" where
  "slog_Fatal l rt args =
     slog_log l LevelError (formatArgs args) (callerAttrs l rt @ stacktraceAttrs l rt)
     @ [Exit 1]"

text \<open>The printf-style methods, lines 154 to 211.\<close>

definition slog_Debugf :: "SlogLogger \<Rightarrow> Runtime \<Rightarrow> string \<Rightarrow> val list \<Rightarrow> event list" where
  "slog_Debugf l rt template args =
     slog_log l LevelDebug (Sprintf rt template args) (callerAttrs l rt)"

definition slog_Infof :: "SlogLogger \<Rightarrow> Runtime \<Rightarrow> string \<Rightarrow> val list \<Rightarrow> event list" where
  "slog_Infof l rt template args =
     slog_log l LevelInfo (Sprintf rt template args) (callerAttrs l rt)"

definition slog_Warnf :: "SlogLogger \<Rightarrow> Runtime \<Rightarrow> string \<Rightarrow> val list \<Rightarrow> event list" where
  "slog_Warnf l rt template args =
     slog_log l LevelWarn (Sprintf rt template args) (callerAttrs l rt)"

definition slog_Errorf :: "SlogLogger \<Rightarrow> Runtime \<Rightarrow> string \<Rightarrow> val list \<Rightarrow> event list" where
  "slog_Errorf l rt template args =
     slog_log l LevelError (Sprintf rt template args)
       (callerAttrs l rt @ stacktraceAttrs l rt)"

definition slog_Fatalf :: "SlogLogger \<Rightarrow> Runtime \<Rightarrow> string \<Rightarrow> val list \<Rightarrow> event list" where
  "slog_Fatalf l rt template args =
     slog_log l LevelError (Sprintf rt template args)
       (callerAttrs l rt @ stacktraceAttrs l rt)
     @ [Exit 1]"

text \<open>The key/value methods, lines 214 to 276.\<close>

definition slog_Debugw :: "SlogLogger \<Rightarrow> Runtime \<Rightarrow> string \<Rightarrow> val list \<Rightarrow> event list" where
  "slog_Debugw l rt msg keysAndValues =
     slog_log l LevelDebug msg (convertToSlogAttrs (sl_mapper l) keysAndValues @ callerAttrs l rt)
     @ sendToOTLP (sl_otlpProvider l) (sl_mapper l) DebugLevel msg keysAndValues"

definition slog_Infow :: "SlogLogger \<Rightarrow> Runtime \<Rightarrow> string \<Rightarrow> val list \<Rightarrow> event list" where
  "slog_Infow l rt msg keysAndValues =
     slog_log l LevelInfo msg (convertToSlogAttrs (sl_mapper l) keysAndValues @ callerAttrs l rt)
     @ sendToOTLP (sl_otlpProvider l) (sl_mapper l) InfoLevel msg keysAndValues"

definition slog_Warnw :: "SlogLogger \<Rightarrow> Runtime \<Rightarrow> string \<Rightarrow> val list \<Rightarrow> event list" where
  "slog_Warnw l rt msg keysAndValues =
     slog_log l LevelWarn msg (convertToSlogAttrs (sl_mapper l) keysAndValues @ callerAttrs l rt)
     @ sendToOTLP (sl_otlpProvider l) (sl_mapper l) WarnLevel msg keysAndValues"

definition slog_Errorw :: "SlogLogger \<Rightarrow> Runtime \<Rightarrow> string \<Rightarrow> val list \<Rightarrow> event list" where
  "slog_Errorw l rt msg keysAndValues =
     slog_log l LevelError msg
       (convertToSlogAttrs (sl_mapper l) keysAndValues @ callerAttrs l rt
        @ stacktraceAttrs l rt)
     @ sendToOTLP (sl_otlpProvider l) (sl_mapper l) ErrorLevel msg keysAndValues"

definition slog_Fatalw :: "SlogLogger \<Rightarrow> Runtime \<Rightarrow> string \<Rightarrow> val list \<Rightarrow> event list" where
  "slog_Fatalw l rt msg keysAndValues =
     slog_log l LevelError msg
       (convertToSlogAttrs (sl_mapper l) keysAndValues @ callerAttrs l rt
        @ stacktraceAttrs l rt)
     @ sendToOTLP (sl_otlpProvider l) (sl_mapper l) FatalLevel msg keysAndValues
     @ [Exit 1]"

section \<open>The zap engine (src/engines/zap/zap.go)\<close>

text \<open>The five levels of zap that \<^verbatim>\<open>mapToZapLevel\<close> reaches, with values and names.\<close>

datatype ZapLevel = ZapDebug | ZapInfo | ZapWarn | ZapError | ZapFatal

fun zap_value :: "ZapLevel \<Rightarrow> int" where
  "zap_value ZapDebug = - 1"
| "zap_value ZapInfo = 0"
| "zap_value ZapWarn = 1"
| "zap_value ZapError = 2"
| "zap_value ZapFatal = 5"

fun zap_name :: "ZapLevel \<Rightarrow> string" where
  "zap_name ZapDebug = ''debug''"
| "zap_name ZapInfo = ''info''"
| "zap_name ZapWarn = ''warn''"
| "zap_name ZapError = ''error''"
| "zap_name ZapFatal = ''fatal''"

text \<open>\<^verbatim>\<open>mapToZapLevel\<close>, lines 349 to 364.\<close>

fun mapToZapLevel :: "Level \<Rightarrow> ZapLevel" where
  "mapToZapLevel DebugLevel = ZapDebug"
| "mapToZapLevel InfoLevel = ZapInfo"
| "mapToZapLevel WarnLevel = ZapWarn"
| "mapToZapLevel ErrorLevel = ZapError"
| "mapToZapLevel FatalLevel = ZapFatal"

text \<open>
  \<^verbatim>\<open>ZapLogger\<close>, lines 19 to 26. The fields \<^verbatim>\<open>logger\<close> and \<^verbatim>\<open>sugar\<close> are one zap
  logger: the level of its configuration and the fields bound to it (the engine field of
  line 65).
\<close>

record ZapLogger =
  zp_coreLevel :: ZapLevel
  zp_fields :: "(string \<times> val) list"
  zp_level :: Level
  zp_mapper :: FieldMapper
  zp_callerSkip :: int
  zp_otlpProvider :: "LoggerProvider option"

text \<open>
  A write through \<^verbatim>\<open>l.sugar\<close> below the fatal level: the entry is written when the
  level of the configuration admits it.
\<close>

definition zap_log :: "ZapLogger \<Rightarrow> ZapLevel \<Rightarrow> string \<Rightarrow> (string \<times> val) list \<Rightarrow> event list" where
  "zap_log l lv msg attrs =
     (if zap_value (zp_coreLevel l) \<le> zap_value lv
      then [LocalWrite (zap_name lv) msg (zp_fields l @ attrs)] else [])"

text \<open>
  A write through \<^verbatim>\<open>l.sugar.Fatal\<close>, \<^verbatim>\<open>Fatalf\<close> or \<^verbatim>\<open>Fatalw\<close>: zap writes the entry
  and ends the process (the methods of lines 101, 131 and 165 are documented to exit and
  contain no exit of their own).
\<close>

definition zap_fatal :: "ZapLogger \<Rightarrow> string \<Rightarrow> (string \<times> val) list \<Rightarrow> event list" where
  "zap_fatal l msg attrs = zap_log l ZapFatal msg attrs @ [Exit 1]"

text \<open>\<^verbatim>\<open>(*ZapLogger).WithCallerSkip\<close>, lines 194 to 205.\<close>

definition zap_WithCallerSkip :: "ZapLogger \<Rightarrow> int \<Rightarrow> ZapLogger" where
  "zap_WithCallerSkip l skip = l\<lparr>zp_callerSkip := zp_callerSkip l + skip\<rparr>"

text \<open>\<^verbatim>\<open>(*ZapLogger).withDynamicCallerSkip\<close>, lines 208 to 237.\<close>

definition withDynamicCallerSkip :: "ZapLogger \<Rightarrow> Runtime \<Rightarrow> ZapLogger" where
  "withDynamicCallerSkip l rt =
     (let extraSkip = (if hasGlobalCall rt then 1 else 0)
      in if extraSkip > 0 then zap_WithCallerSkip l extraSkip else l)"

text \<open>
  \<^verbatim>\<open>(*ZapLogger).standardizeFields\<close>, lines 248 to 268: the flat list of keys and
  values; a last key without a value is followed by nil.
\<close>

fun standardizeFields :: "FieldMapper \<Rightarrow> val list \<Rightarrow> val list" where
  "standardizeFields m [] = []"
| "standardizeFields m [k] = [VStr (getStandardFieldName m (anyToString k)), VNil]"
| "standardizeFields m (k # v # rest) =
     VStr (getStandardFieldName m (anyToString k)) # v # standardizeFields m rest"

text \<open>
  How the sugared logger of zap reads the flat list again: a string key with the value
  after it is a field; a key that is not a string, or a last key alone, is not.
\<close>

fun sweetenFields :: "val list \<Rightarrow> (string \<times> val) list" where
  "sweetenFields [] = []"
| "sweetenFields [k] = []"
| "sweetenFields (VStr k # v # rest) = (k, v) # sweetenFields rest"
| "sweetenFields (k # v # rest) = sweetenFields rest"

text \<open>The variadic methods, lines 78 to 105.\<close>

definition zap_Debug :: "ZapLogger \<Rightarrow> Runtime \<Rightarrow> val list \<Rightarrow> event list" where
  "zap_Debug l rt args =
     (let logger = withDynamicCallerSkip l rt in zap_log logger ZapDebug (Sprint rt args) [])"

definition zap_Info :: "ZapLogger \<Rightarrow> Runtime \<Rightarrow> val list \<Rightarrow> event list" where
  "zap_Info l rt args =
     (let logger = withDynamicCallerSkip l rt in zap_log logger ZapInfo (Sprint rt args) [])"

definition zap_Warn :: "ZapLogger \<Rightarrow> Runtime \<Rightarrow> val list \<Rightarrow> event list" where
  "zap_Warn l rt args =
     (let logger = withDynamicCallerSkip l rt in zap_log logger ZapWarn (Sprint rt args) [])"

definition zap_Error :: "ZapLogger \<Rightarrow> Runtime \<Rightarrow> val list \<Rightarrow> event list" where
  "zap_Error l rt args =
     (let logger = withDynamicCallerSkip l rt in zap_log logger ZapError (Sprint rt args) [])"

definition zap_Fatal :: "ZapLogger \<Rightarrow> Runtime \<Rightarrow> val list \<Rightarrow> event list" where
  "zap_Fatal l rt args =
     (let logger = withDynamicCallerSkip l rt in zap_fatal logger (Sprint rt args) [])"

text \<open>The printf-style methods, lines 108 to 135.\<close>

definition zap_Debugf :: "ZapLogger \<Rightarrow> Runtime \<Rightarrow> string \<Rightarrow> val list \<Rightarrow> event list" where
  "zap_Debugf l rt template args =
     (let logger = withDynamicCallerSkip l rt
      in zap_log logger ZapDebug (Sprintf rt template args) [])"

definition zap_Infof :: "ZapLogger \<Rightarrow> Runtime \<Rightarrow> string \<Rightarrow> val list \<Rightarrow> event list" where
  "zap_Infof l rt template args =
     (let logger = withDynamicCallerSkip l rt
      in zap_log logger ZapInfo (Sprintf rt template args) [])"

definition zap_Warnf :: "ZapLogger \<Rightarrow> Runtime \<Rightarrow> string \<Rightarrow> val list \<Rightarrow> event list" where
  "zap_Warnf l rt template args =
     (let logger = withDynamicCallerSkip l rt
      in zap_log logger ZapWarn (Sprintf rt template args) [])"

definition zap_Errorf :: "ZapLogger \<Rightarrow> Runtime \<Rightarrow> string \<Rightarrow> val list \<Rightarrow> event list" where
  "zap_Errorf l rt template args =
     (let logger = withDynamicCallerSkip l rt
      in zap_log logger ZapError (Sprintf rt template args) [])"

definition zap_Fatalf :: "ZapLogger \<Rightarrow> Runtime \<Rightarrow> string \<Rightarrow> val list \<Rightarrow> event list" where
  "zap_Fatalf l rt template args =
     (let logger = withDynamicCallerSkip l rt
      in zap_fatal logger (Sprintf rt template args) [])"

text \<open>
  The key/value methods, lines 138 to 170. The export is the statement after the write, on
  the receiver itself.
\<close>

definition zap_Debugw :: "ZapLogger \<Rightarrow> Runtime \<Rightarrow> string \<Rightarrow> val list \<Rightarrow> event list" where
  "zap_Debugw l rt msg keysAndValues =
     (let logger = withDynamicCallerSkip l rt
      in then_do
           (zap_log logger ZapDebug msg
              (sweetenFields (standardizeFields (zp_mapper logger) keysAndValues)))
           (sendToOTLP (zp_otlpProvider l) (zp_mapper l) DebugLevel msg keysAndValues))"

definition zap_Infow :: "ZapLogger \<Rightarrow> Runtime \<Rightarrow> string \<Rightarrow> val list \<Rightarrow> event list" where
  "zap_Infow l rt msg keysAndValues =
     (let logger = withDynamicCallerSkip l rt
      in then_do
           (zap_log logger ZapInfo msg
              (sweetenFields (standardizeFields (zp_mapper logger) keysAndValues)))
           (sendToOTLP (zp_otlpProvider l) (zp_mapper l) InfoLevel msg keysAndValues))"

definition zap_Warnw :: "ZapLogger \<Rightarrow> Runtime \<Rightarrow> string \<Rightarrow> val list \<Rightarrow> event list" where
  "zap_Warnw l rt msg keysAndValues =
     (let logger = withDynamicCallerSkip l rt
      in then_do
           (zap_log logger ZapWarn msg
              (sweetenFields (standardizeFields (zp_mapper logger) keysAndValues)))
           (sendToOTLP (zp_otlpProvider l) (zp_mapper l) WarnLevel msg keysAndValues))"

definition zap_Errorw :: "ZapLogger \<Rightarrow> Runtime \<Rightarrow> string \<Rightarrow> val list \<Rightarrow> event list" where
  "zap_Errorw l rt msg keysAndValues =
     (let logger = withDynamicCallerSkip l rt
      in then_do
           (zap_log logger ZapError msg
              (sweetenFields (standardizeFields (zp_mapper logger) keysAndValues)))
           (sendToOTLP (zp_otlpProvider l) (zp_mapper l) ErrorLevel msg keysAndValues))"

definition zap_Fatalw :: "ZapLogger \<Rightarrow> Runtime \<Rightarrow> string \<Rightarrow> val list \<Rightarrow> event list" where
  "zap_Fatalw l rt msg keysAndValues =
     (let logger = withDynamicCallerSkip l rt
      in then_do
           (zap_fatal logger msg
              (sweetenFields (standardizeFields (zp_mapper logger) keysAndValues)))
           (sendToOTLP (zp_otlpProvider l) (zp_mapper l) FatalLevel msg keysAndValues))"

section \<open>Construction of the engines\<close>

text \<open>The interface \<^verbatim>\<open>core.Logger\<close> has the two implementations.\<close>

datatype Logger = Zap ZapLogger | Slog SlogLogger

text \<open>
  \<^verbatim>\<open>createOutputWriters\<close>, part_001 lines 411 to 437: the error of the first file that
  cannot be opened, if any.
\<close>

fun createOutputWriters :: "Env \<Rightarrow> string list \<Rightarrow> error option" where
  "createOutputWriters env [] = None"
| "createOutputWriters env (path # paths) =
     (if ToLower path = ''stdout'' \<or> ToLower path = [] then createOutputWriters env paths
      else if ToLower path = ''stderr'' then createOutputWriters env paths
      else if openFileFails env path then Some (OpenFileFailed path)
      else createOutputWriters env paths)"

text \<open>\<^verbatim>\<open>normalizeOutputPaths\<close>, zap.go lines 366 to 379.\<close>

definition normalizeOutputPaths :: "string list \<Rightarrow> string list" where
  "normalizeOutputPaths paths =
     map (\<lambda>path. if ToLower path = ''stdout'' \<or> ToLower path = [] then ''stdout''
                  else if ToLower path = ''stderr'' then ''stderr'' else path) paths"

text \<open>
  The provider of a validated configuration, zap.go lines 40 to 48 and part_001 lines 40
  to 48.
\<close>

definition initProvider :: "Env \<Rightarrow> LogOption \<Rightarrow> error + LoggerProvider option" where
  "initProvider env opt =
     (if IsOTLPEnabled opt then
        (case NewLoggerProvider env (OTLP opt) of
           Inl e \<Rightarrow> Inl (OTLPProviderFailed e)
         | Inr provider \<Rightarrow> Inr (Some provider))
      else Inr None)"

text \<open>
  \<^verbatim>\<open>NewSlogLogger\<close>, part_001 lines 29 to 91. The mapper \<open>fm\<close> is the value of
  \<^verbatim>\<open>fields.NewFieldMapper()\<close>.
\<close>

definition NewSlogLogger :: "Env \<Rightarrow> FieldMapper \<Rightarrow> LogOption \<Rightarrow> error + Logger" where
  "NewSlogLogger env fm opt0 =
     (case Validate opt0 of
        (Some e, opt) \<Rightarrow> Inl e
      | (None, opt) \<Rightarrow>
          (case ParseLevel (Level opt) of
             Inl e \<Rightarrow> Inl e
           | Inr level \<Rightarrow>
               (case initProvider env opt of
                  Inl e \<Rightarrow> Inl e
                | Inr otlpProvider \<Rightarrow>
                    (case createOutputWriters env (OutputPaths opt) of
                       Some e \<Rightarrow> Inl e
                     | None \<Rightarrow>
                         Inr (Slog \<lparr>sl_handlerLevel = mapToSlogLevel level,
                                    sl_handlerMapper = fm,
                                    sl_level = level,
                                    sl_mapper = fm,
                                    sl_callerSkip = 0,
                                    sl_disableStacktrace = DisableStacktrace opt,
                                    sl_otlpProvider = otlpProvider\<rparr>)))))"

text \<open>
  \<^verbatim>\<open>NewZapLogger\<close>, zap.go lines 29 to 75, with the sinks that \<^verbatim>\<open>createZapConfig\<close>
  (lines 319 to 323) gives to \<^verbatim>\<open>config.Build\<close>; without output paths the preset of zap
  writes to standard error.
\<close>

definition NewZapLogger :: "Env \<Rightarrow> FieldMapper \<Rightarrow> LogOption \<Rightarrow> error + Logger" where
  "NewZapLogger env fm opt0 =
     (case Validate opt0 of
        (Some e, opt) \<Rightarrow> Inl e
      | (None, opt) \<Rightarrow>
          (case ParseLevel (Level opt) of
             Inl e \<Rightarrow> Inl e
           | Inr level \<Rightarrow>
               (case initProvider env opt of
                  Inl e \<Rightarrow> Inl e
                | Inr otlpProvider \<Rightarrow>
                    (if zapBuildFails env
                          (if length (OutputPaths opt) > 0
                           then normalizeOutputPaths (OutputPaths opt) else [''stderr''])
                     then Inl ZapBuildFailed
                     else
                       Inr (Zap \<lparr>zp_coreLevel = mapToZapLevel level,
                                 zp_fields = [(''engine'', VStr ''zap'')],
                                 zp_level = level,
                                 zp_mapper = fm,
                                 zp_callerSkip = 0,
                                 zp_otlpProvider = otlpProvider\<rparr>)))))"

section \<open>The factory (src/factory/factory.go)\<close>

text \<open>
  \<^verbatim>\<open>(*LoggerFactory).CreateLogger\<close>, lines 25 to 53. The result is the configuration as
  the call leaves it, the engine constructors that were called, in order, and the logger
  or the error.
\<close>

datatype engine = ZapEngine | SlogEngine

definition CreateLogger ::
  "Env \<Rightarrow> FieldMapper \<Rightarrow> LogOption \<Rightarrow> LogOption \<times> engine list \<times> (error + Logger)" where
  "CreateLogger env fm option0 =
     (case Validate option0 of
        (Some err, opt) \<Rightarrow> (opt, [], Inl (InvalidConfiguration err))
      | (None, opt) \<Rightarrow>
          if Engine opt \<noteq> ''zap'' \<and> Engine opt \<noteq> ''slog''
          then (opt, [], Inl (UnsupportedEngine (Engine opt)))
          else if Engine opt = ''zap'' then
            (case NewZapLogger env fm opt of
               Inr logger \<Rightarrow> (opt, [ZapEngine], Inr logger)
             | Inl err \<Rightarrow> (opt, [ZapEngine, SlogEngine], NewSlogLogger env fm opt))
          else if Engine opt = ''slog'' then
            (case NewSlogLogger env fm opt of
               Inr logger \<Rightarrow> (opt, [SlogEngine], Inr logger)
             | Inl err \<Rightarrow> (opt, [SlogEngine, ZapEngine], NewZapLogger env fm opt))
          else (opt, [], Inl (UnsupportedEngine (Engine opt))))"

text \<open>\<^verbatim>\<open>(*LoggerFactory).UpdateOption\<close>, lines 71 to 77, on the held configuration.\<close>

definition UpdateOption :: "LogOption \<Rightarrow> LogOption \<Rightarrow> error option \<times> LogOption" where
  "UpdateOption held opt =
     (case Validate opt of
        (Some err, opt1) \<Rightarrow> (Some (InvalidConfiguration err), held)
      | (None, opt1) \<Rightarrow> (None, opt1))"

section \<open>Example inputs\<close>

text \<open>
  An environment in which nothing fails, a mapper with one alias, a runtime, and a
  configuration with export over HTTP to \<open>localhost:4318\<close>; then the loggers that the
  constructors build from that configuration.
\<close>

definition example_env :: Env where
  "example_env =
     \<lparr>grpcDialFails = (\<lambda>endpoint. False), openFileFails = (\<lambda>path. False),
      zapBuildFails = (\<lambda>paths. False)\<rparr>"

definition failing_zap_env :: Env where
  "failing_zap_env =
     \<lparr>grpcDialFails = (\<lambda>endpoint. False), openFileFails = (\<lambda>path. False),
      zapBuildFails = (\<lambda>paths. True)\<rparr>"

definition example_mapper :: FieldMapper where
  "example_mapper =
     \<lparr>MapCoreFields = [''ts'' \<mapsto> ''timestamp''], MapTracingFields = Map.empty\<rparr>"

definition example_runtime :: Runtime where
  "example_runtime =
     \<lparr>hasGlobalCall = False, callerAt = (\<lambda>skip. ''main.go:42''),
      stackAt = (\<lambda>skip. ''main.main''), Sprintf = (\<lambda>template args. template),
      Sprint = (\<lambda>args. concat (map anyToString args))\<rparr>"

definition example_option :: "string \<Rightarrow> string \<Rightarrow> LogOption" where
  "example_option engine level =
     \<lparr>Engine = engine, Level = level, Format = ''json'', OutputPaths = [''stdout''],
      OTLPEndpoint = ''localhost:4318'',
      OTLP = Some (zero_OTLPOption\<lparr>Protocol := ''http''\<rparr>),
      Development = False, DisableCaller = False, DisableStacktrace = False\<rparr>"

definition example_provider :: LoggerProvider where
  "example_provider =
     \<lparr>client = \<lparr>cl_endpoint = ''localhost:4318'', cl_protocol = ''http'',
        cl_timeout = 10000000000, cl_headers = Map.empty, cl_insecure = False,
        cl_grpc = False\<rparr>\<rparr>"

definition example_slog :: "Level \<Rightarrow> SlogLogger" where
  "example_slog level =
     \<lparr>sl_handlerLevel = mapToSlogLevel level, sl_handlerMapper = example_mapper,
      sl_level = level, sl_mapper = example_mapper, sl_callerSkip = 0,
      sl_disableStacktrace = False, sl_otlpProvider = Some example_provider\<rparr>"

definition example_zap :: "Level \<Rightarrow> ZapLogger" where
  "example_zap level =
     \<lparr>zp_coreLevel = mapToZapLevel level, zp_fields = [(''engine'', VStr ''zap'')],
      zp_level = level, zp_mapper = example_mapper, zp_callerSkip = 0,
      zp_otlpProvider = Some example_provider\<rparr>"

section \<open>Properties of the resolvers\<close>

lemma resolve_OTLP_Some: "\<exists>o1. OTLP (resolveOTLPConfig opt) = Some o1"
  by (simp add: resolveOTLPConfig_def Let_def)

text \<open>
  Claim C1. When the nested export setting is present with \<open>enabled\<close> explicitly false,
  the resolved configuration is not export-enabled, whatever the flattened and the nested
  endpoint are.
\<close>

theorem explicit_disable_wins:
  assumes "OTLP opt = Some o1" and "Enabled o1 = Some False"
  shows "\<not> IsOTLPEnabled (resolveOTLPConfig opt)"
  using assms
  by (simp add: resolveOTLPConfig_def IsOTLPEnabled_def applyDefaults_def Let_def)

theorem explicit_disable_wins_witness:
  "\<not> IsOTLPEnabled (resolveOTLPConfig
       \<lparr>Engine = ''slog'', Level = ''INFO'', Format = ''json'', OutputPaths = [''stdout''],
        OTLPEndpoint = ''http://localhost:4317'',
        OTLP = Some (zero_OTLPOption\<lparr>Enabled := Some False, Endpoint := ''http://nested:4317''\<rparr>),
        Development = False, DisableCaller = False, DisableStacktrace = False\<rparr>)"
  by (rule explicit_disable_wins
        [where ?o1.0 = "zero_OTLPOption\<lparr>Enabled := Some False, Endpoint := ''http://nested:4317''\<rparr>"])
     simp_all




text \<open>
  Claim C7. A non-empty flattened endpoint with the nested setting absent, or present
  with \<open>enabled\<close> unset and neither protocol nor timeout given, resolves to an enabled
  export whose endpoint is the flattened value, whose protocol is \<open>grpc\<close> and whose
  timeout is ten seconds.
\<close>

theorem flattened_only_autoenable:
  assumes "OTLPEndpoint opt \<noteq> []"
    and "case OTLP opt of
           None \<Rightarrow> True
         | Some o1 \<Rightarrow> Enabled o1 = None \<and> Protocol o1 = [] \<and> Timeout o1 = 0"
  shows "IsOTLPEnabled (resolveOTLPConfig opt)
       \<and> map_option Endpoint (OTLP (resolveOTLPConfig opt)) = Some (OTLPEndpoint opt)
       \<and> map_option Protocol (OTLP (resolveOTLPConfig opt)) = Some ''grpc''
       \<and> map_option Timeout (OTLP (resolveOTLPConfig opt)) = Some (10 * Second)"
  using assms
  by (cases "OTLP opt")
     (simp_all add: resolveOTLPConfig_def IsOTLPEnabled_def applyDefaults_def
        zero_OTLPOption_def Let_def)

theorem flattened_only_autoenable_witness:
  "IsOTLPEnabled (resolveOTLPConfig
       \<lparr>Engine = ''slog'', Level = ''INFO'', Format = ''json'', OutputPaths = [''stdout''],
        OTLPEndpoint = ''http://localhost:4317'', OTLP = None,
        Development = False, DisableCaller = False, DisableStacktrace = False\<rparr>)
   \<and> map_option Timeout (OTLP (resolveOTLPConfig
       \<lparr>Engine = ''slog'', Level = ''INFO'', Format = ''json'', OutputPaths = [''stdout''],
        OTLPEndpoint = ''http://localhost:4317'', OTLP = None,
        Development = False, DisableCaller = False, DisableStacktrace = False\<rparr>))
     = Some 10000000000"
  using flattened_only_autoenable
    [where opt = "\<lparr>Engine = ''slog'', Level = ''INFO'', Format = ''json'',
        OutputPaths = [''stdout''], OTLPEndpoint = ''http://localhost:4317'', OTLP = None,
        Development = False, DisableCaller = False, DisableStacktrace = False\<rparr>"]
  by (simp add: Second_def)

lemma applyDefaults_idem: "applyDefaults (applyDefaults o1) = applyDefaults o1"
  by (simp add: applyDefaults_def Let_def Second_def)

lemma cfg_applyDefaults_idem: "cfg_applyDefaults (cfg_applyDefaults o1) = cfg_applyDefaults o1"
  by (simp add: cfg_applyDefaults_def Let_def Second_def)

lemma resolve_idem: "resolveOTLPConfig (resolveOTLPConfig opt) = resolveOTLPConfig opt"
  by (cases "OTLP opt")
     (auto simp add: resolveOTLPConfig_def applyDefaults_def Let_def Second_def)

lemma cfg_resolve_idem:
  "cfg_resolveOTLPConfig (cfg_resolveOTLPConfig c) = cfg_resolveOTLPConfig c"
  by (cases "cfgOTLP c")
     (auto simp add: cfg_resolveOTLPConfig_def cfg_applyDefaults_def Let_def Second_def)

text \<open>
  Claim C10. Both resolvers are idempotent: resolving a resolved configuration changes
  nothing, in any field.
\<close>

theorem resolveOTLPConfig_idempotent:
  "resolveOTLPConfig (resolveOTLPConfig opt) = resolveOTLPConfig opt
   \<and> cfg_resolveOTLPConfig (cfg_resolveOTLPConfig c) = cfg_resolveOTLPConfig c"
  by (simp add: resolve_idem cfg_resolve_idem)

section \<open>Properties of validation\<close>

lemma toLower_char_idem: "toLower_char (toLower_char c) = toLower_char c"
  by (simp add: toLower_char_def split: if_splits)

lemma ParseLevel_ok_iff:
  "(\<exists>l. ParseLevel s = Inr l)
   \<longleftrightarrow> ToLower s \<in> {''debug'', ''info'', ''warn'', ''error'', ''fatal''}"
  by (simp add: ParseLevel_def Let_def)







section \<open>Properties of the export URL\<close>

text \<open>
  Claim C9, at an input where the code departs from it. The endpoint
  \<open>http-collector:4318\<close> is a bare host and port without a scheme; over the HTTP
  binding the request goes to the endpoint itself, not to
  \<open>http://http-collector:4318/v1/logs\<close>.
\<close>

theorem exportHTTP_url_bare_host_literal:
  "Export \<lparr>cl_endpoint = ''http-collector:4318'', cl_protocol = ''http'',
       cl_timeout = 10 * Second, cl_headers = Map.empty, cl_insecure = False,
       cl_grpc = False\<rparr>
     = Inr (HTTPPost ''http-collector:4318'')
   \<and> exportHTTP_url ''http-collector:4318'' \<noteq> ''http://http-collector:4318/v1/logs''"
  by (simp add: Export_def exportHTTP_url_def HasPrefix_def)

section \<open>Properties of the factory\<close>

lemma Validate_cases:
  "(\<exists>e. Validate opt = (Some e, opt))
   \<or> (\<exists>opt1. Validate opt = (None, opt1) \<and> (Engine opt1 = ''zap'' \<or> Engine opt1 = ''slog''))"
  by (cases "ParseLevel (Level opt)") (auto simp add: Validate_def Let_def)

lemma resolve_Engine_update:
  "resolveOTLPConfig (opt\<lparr>Engine := e\<rparr>) = (resolveOTLPConfig opt)\<lparr>Engine := e\<rparr>"
  by (simp add: resolveOTLPConfig_def Let_def)

lemma resolve_keeps_Level: "Level (resolveOTLPConfig opt) = Level opt"
  by (simp add: resolveOTLPConfig_def Let_def)

lemma resolve_keeps_Engine: "Engine (resolveOTLPConfig opt) = Engine opt"
  by (simp add: resolveOTLPConfig_def Let_def)

text \<open>
  The constructors validate the configuration again; on a validated configuration that
  changes nothing.
\<close>

lemma Validate_idem:
  assumes "Validate opt = (None, opt1)"
  shows "Validate opt1 = (None, opt1)"
proof (cases "ParseLevel (Level opt)")
  case (Inl e)
  with assms show ?thesis by (simp add: Validate_def)
next
  case (Inr lv)
  let ?r = "resolveOTLPConfig opt"
  show ?thesis
  proof (cases "Engine opt \<noteq> ''zap'' \<and> Engine opt \<noteq> ''slog''")
    case True
    with assms Inr have o1: "opt1 = ?r\<lparr>Engine := ''slog''\<rparr>"
      by (simp add: Validate_def Let_def resolve_keeps_Engine)
    have "Level opt1 = Level opt" by (simp add: o1 resolve_keeps_Level)
    moreover have "resolveOTLPConfig opt1 = opt1"
      by (simp add: o1 resolve_Engine_update resolve_idem)
    moreover have "Engine opt1 = ''slog''" by (simp add: o1)
    ultimately show ?thesis using Inr by (auto simp add: Validate_def Let_def)
  next
    case False
    with assms Inr have o1: "opt1 = ?r"
      by (simp add: Validate_def Let_def resolve_keeps_Engine)
    have "Level opt1 = Level opt" by (simp add: o1 resolve_keeps_Level)
    moreover have "resolveOTLPConfig opt1 = opt1" by (simp add: o1 resolve_idem)
    moreover have "Engine opt1 = Engine opt" by (simp add: o1 resolve_keeps_Engine)
    ultimately show ?thesis using Inr False by (auto simp add: Validate_def Let_def)
  qed
qed

text \<open>
  Claim C6. When validation fails, \<^verbatim>\<open>CreateLogger\<close> returns that error, wrapped, and
  calls no constructor. When validation succeeds, the engine is \<open>zap\<close> or \<open>slog\<close>; the
  constructor of that engine is called first and its logger returned; only when it fails
  is the constructor of the other engine called, and its result is the result. So an error
  comes back exactly when both constructors fail.
\<close>

theorem CreateLogger_fallback:
  "(fst (Validate opt) = Some e \<longrightarrow>
      CreateLogger env fm opt = (snd (Validate opt), [], Inl (InvalidConfiguration e)))
   \<and> (fst (Validate opt) = None \<longrightarrow>
        (Engine (snd (Validate opt)) = ''zap'' \<or> Engine (snd (Validate opt)) = ''slog'')
      \<and> (Engine (snd (Validate opt)) = ''zap'' \<longrightarrow>
            (case NewZapLogger env fm (snd (Validate opt)) of
               Inr logger \<Rightarrow>
                 CreateLogger env fm opt = (snd (Validate opt), [ZapEngine], Inr logger)
             | Inl err \<Rightarrow>
                 CreateLogger env fm opt
                   = (snd (Validate opt), [ZapEngine, SlogEngine],
                      NewSlogLogger env fm (snd (Validate opt)))))
      \<and> (Engine (snd (Validate opt)) = ''slog'' \<longrightarrow>
            (case NewSlogLogger env fm (snd (Validate opt)) of
               Inr logger \<Rightarrow>
                 CreateLogger env fm opt = (snd (Validate opt), [SlogEngine], Inr logger)
             | Inl err \<Rightarrow>
                 CreateLogger env fm opt
                   = (snd (Validate opt), [SlogEngine, ZapEngine],
                      NewZapLogger env fm (snd (Validate opt)))))
      \<and> (isl (snd (snd (CreateLogger env fm opt)))
            \<longleftrightarrow> isl (NewZapLogger env fm (snd (Validate opt)))
                \<and> isl (NewSlogLogger env fm (snd (Validate opt)))))"
  using Validate_cases [of opt]
  by (auto simp add: CreateLogger_def split: sum.splits)

lemmas ex_defs = example_env_def failing_zap_env_def example_mapper_def example_option_def
  example_provider_def example_slog_def example_zap_def example_runtime_def

lemmas cfg_defs = Validate_def ParseLevel_def ToLower_def toLower_char_def
  resolveOTLPConfig_def applyDefaults_def zero_OTLPOption_def IsOTLPEnabled_def IsEnabled_def
  Let_def Second_def

lemmas new_defs = NewSlogLogger_def NewZapLogger_def initProvider_def NewLoggerProvider_def
  NewOTLPClient_def normalizeOutputPaths_def

lemmas call_defs = slog_log_def zap_log_def zap_fatal_def Handle_def sendToOTLP_def
  then_do_def callerAttrs_def stacktraceAttrs_def getCaller_def getStacktrace_def
  withDynamicCallerSkip_def zap_WithCallerSkip_def getStandardFieldName_def CallerField_def
  StacktraceField_def formatArgs_def

text \<open>
  The theorem at a configuration that asks for zap where building zap fails: both
  constructors are called, in that order, and the slog logger comes back without an error.
\<close>

theorem CreateLogger_fallback_witness:
  "fst (Validate (example_option ''zap'' ''INFO'')) = None
   \<and> fst (snd (CreateLogger failing_zap_env example_mapper (example_option ''zap'' ''INFO'')))
       = [ZapEngine, SlogEngine]
   \<and> snd (snd (CreateLogger failing_zap_env example_mapper (example_option ''zap'' ''INFO'')))
       = Inr (Slog (example_slog InfoLevel))"
  using CreateLogger_fallback
    [where opt = "example_option ''zap'' ''INFO''" and env = failing_zap_env
       and fm = example_mapper]
  by (simp add: ex_defs cfg_defs new_defs)

section \<open>Properties of the log calls\<close>

lemma example_slog_built:
  "NewSlogLogger example_env example_mapper (example_option ''slog'' ''INFO'')
     = Inr (Slog (example_slog InfoLevel))"
  by (simp add: ex_defs cfg_defs new_defs)

lemma example_slog_fatal_built:
  "NewSlogLogger example_env example_mapper (example_option ''slog'' ''FATAL'')
     = Inr (Slog (example_slog FatalLevel))"
  by (simp add: ex_defs cfg_defs new_defs)

lemma example_zap_built:
  "NewZapLogger example_env example_mapper (example_option ''zap'' ''INFO'')
     = Inr (Zap (example_zap InfoLevel))"
  by (simp add: ex_defs cfg_defs new_defs)

text \<open>
  Claim C3, at inputs where the code departs from it. On the loggers built with minimum
  level info and export active, a debug call in the key/value convention writes nothing
  locally and still calls \<^verbatim>\<open>SendLogRecord\<close>, in both engines. On the slog logger built
  with minimum level fatal, an error call is written: \<^verbatim>\<open>mapToSlogLevel\<close> gives the
  handler the level of errors.
\<close>

theorem below_level_call_exports:
  "slog_Debugw (example_slog InfoLevel) example_runtime ''m'' [VStr ''k'', VInt 1]
     = [SendLogRecord DebugLevel ''m'' [''k'' \<mapsto> VInt 1]]
   \<and> zap_Debugw (example_zap InfoLevel) example_runtime ''m'' [VStr ''k'', VInt 1]
     = [SendLogRecord DebugLevel ''m'' [''k'' \<mapsto> VInt 1]]
   \<and> slog_Error (example_slog FatalLevel) example_runtime [VStr ''x'']
     = [LocalWrite ''ERROR'' ''x''
          [(''engine'', VStr ''slog''), (''caller'', VStr ''main.go:42''),
           (''stacktrace'', VStr ''main.main'')]]"
  by (simp add: slog_Debugw_def zap_Debugw_def slog_Error_def ex_defs call_defs)

text \<open>
  In general: with a provider, the key/value debug call reaches \<^verbatim>\<open>SendLogRecord\<close>
  whatever the level of the logger is.
\<close>

lemma kv_call_exports_at_any_level:
  "sl_otlpProvider l = Some p \<Longrightarrow> list_ex is_SendLogRecord (slog_Debugw l rt msg kvs)"
  "zp_otlpProvider l2 = Some p \<Longrightarrow> list_ex is_SendLogRecord (zap_Debugw l2 rt msg kvs)"
  by (simp_all add: slog_Debugw_def zap_Debugw_def sendToOTLP_def then_do_def zap_log_def
        withDynamicCallerSkip_def zap_WithCallerSkip_def Let_def)

lemma variadic_no_send:
  "\<not> list_ex is_SendLogRecord (slog_Info l rt args)"
  "\<not> list_ex is_SendLogRecord (zap_Info l2 rt args)"
  by (simp_all add: slog_Info_def zap_Info_def slog_log_def zap_log_def Handle_def Let_def)

text \<open>
  Claim C4, at inputs where the code departs from it. With export active and minimum level
  info, an info call in the variadic or in the printf-style convention is written locally
  and nothing is handed to the export client, in both engines; and the fatal key/value
  call of the zap engine ends the process before the export statement.
\<close>

theorem variadic_and_printf_never_export:
  "slog_Info (example_slog InfoLevel) example_runtime [VStr ''hello'']
     = [LocalWrite ''INFO'' ''hello''
          [(''engine'', VStr ''slog''), (''caller'', VStr ''main.go:42'')]]
   \<and> slog_Infof (example_slog InfoLevel) example_runtime ''hello'' []
     = [LocalWrite ''INFO'' ''hello''
          [(''engine'', VStr ''slog''), (''caller'', VStr ''main.go:42'')]]
   \<and> zap_Info (example_zap InfoLevel) example_runtime [VStr ''hello'']
     = [LocalWrite ''info'' ''hello'' [(''engine'', VStr ''zap'')]]
   \<and> zap_Infof (example_zap InfoLevel) example_runtime ''hello'' []
     = [LocalWrite ''info'' ''hello'' [(''engine'', VStr ''zap'')]]
   \<and> zap_Fatalw (example_zap InfoLevel) example_runtime ''bye'' []
     = [LocalWrite ''fatal'' ''bye'' [(''engine'', VStr ''zap'')], Exit 1]"
  by (simp add: slog_Info_def slog_Infof_def zap_Info_def zap_Infof_def zap_Fatalw_def
        ex_defs call_defs)

lemma otlp_attributes_odd:
  "even (length kvs) \<Longrightarrow> otlp_attributes m (kvs @ [k]) acc = otlp_attributes m kvs acc"
  by (induction m kvs acc rule: otlp_attributes.induct) auto

lemma convertToSlogAttrs_odd:
  "even (length kvs) \<Longrightarrow>
     convertToSlogAttrs m (kvs @ [k]) = convertToSlogAttrs m kvs @ [(anyToString k, VNil)]"
  by (induction m kvs rule: convertToSlogAttrs.induct) (auto simp add: Let_def)

lemma sweeten_standardizeFields_odd:
  "even (length kvs) \<Longrightarrow>
     sweetenFields (standardizeFields m (kvs @ [k]))
       = sweetenFields (standardizeFields m kvs)
         @ [(getStandardFieldName m (anyToString k), VNil)]"
  by (induction m kvs rule: standardizeFields.induct) auto

text \<open>
  Claim C5, at an input where the code departs from it. An info call in the key/value
  convention with the single key \<open>k\<close> writes \<open>k\<close> with a nil value locally, and hands
  the export client an attribute map without \<open>k\<close>, in both engines.
\<close>

theorem odd_key_dropped_on_export:
  "slog_Infow (example_slog InfoLevel) example_runtime ''m'' [VStr ''k'']
     = [LocalWrite ''INFO'' ''m''
          [(''engine'', VStr ''slog''), (''k'', VNil), (''caller'', VStr ''main.go:42'')],
        SendLogRecord InfoLevel ''m'' Map.empty]
   \<and> zap_Infow (example_zap InfoLevel) example_runtime ''m'' [VStr ''k'']
     = [LocalWrite ''info'' ''m'' [(''engine'', VStr ''zap''), (''k'', VNil)],
        SendLogRecord InfoLevel ''m'' Map.empty]"
  by (simp add: slog_Infow_def zap_Infow_def ex_defs call_defs)

end
